theory Spec2Isabelle
  imports Complex_Main
begin

section \<open>The seat-booking service\<close>

text \<open>
  The booking design documents give the data model as SQL tables and the booking logic
  as the TypeScript method \<open>BookingService.bookSeat\<close>, which runs four SQL statements
  inside \<open>db.transaction\<close>.

  \<^item> \<open>system_status\<close> holds the single row \<open>id = 1\<close> with the column
    \<open>available_seats\<close> (an SQL \<open>INT\<close>); the model keeps that column.
  \<^item> \<open>bookings\<close> holds one row per booking: \<open>id SERIAL PRIMARY KEY\<close> and
    \<open>user_id VARCHAR(255) UNIQUE\<close>. The column \<open>booked_at\<close> defaults to the wall
    clock and is read nowhere; it is left out. Rows are kept in insertion order.
  \<^item> \<open>bookings_id_seq\<close> is the counter behind the \<open>SERIAL\<close> column: the id the next
    inserted row receives. It is kept as part of the state a transaction commits or
    rolls back; no statement below depends on its value after a call that throws.

  User ids are compared character for character. The row lock of
  \<open>SELECT ... FOR UPDATE\<close> serialises the transactions, so a run of the service is a
  sequence of \<open>bookSeat\<close> calls, each applied to the state the previous one left.
\<close>

record booking =
  booking_id :: int
  user_id :: string

record db =
  available_seats :: int
  bookings :: "booking list"
  bookings_id_seq :: int

text \<open>
  What a call can throw: \<open>new Error(msg)\<close>, which carries its message; the
  \<open>TypeError\<close> of reading a property of \<open>undefined\<close>; and the error with which
  \<open>tx.query\<close> rejects when the database refuses a statement (the source does not fix
  its message).
\<close>

datatype error = Error string | TypeError | DatabaseError

text \<open>
  The result of an \<open>async\<close> function: \<open>Inr v\<close> when its promise resolves with the
  returned value \<open>v\<close>, \<open>Inl e\<close> when the body throws \<open>e\<close> and the promise rejects.
\<close>

type_synonym 'a promise = "error + 'a"

subsection \<open>The schema's initial contents\<close>

text \<open>
  \<open>INSERT INTO system_status (id, available_seats) VALUES (1, 100)\<close> on empty tables.
  The seat count is a parameter of \<open>create_pool\<close>; the documents fix it to 100.
\<close>

definition create_pool :: "int \<Rightarrow> db" where
  "create_pool capacity =
     \<lparr>available_seats = capacity, bookings = [], bookings_id_seq = 1\<rparr>"

definition initial_db :: db where
  "initial_db = create_pool 100"

subsection \<open>Query results as the program reads them\<close>

text \<open>
  \<open>tx.query\<close> resolves to the array of the rows selected: the method reads
  \<open>.length\<close> of one result and takes the first element of another. The values the
  method compares are numbers and \<open>undefined\<close>.
\<close>

datatype js_value = Undefined | Number int

text \<open>A row of the status query: an object with the one column selected.\<close>

record status_row =
  col_available_seats :: int

text \<open>Reading \<open>row.available_seats\<close> of a status row.\<close>

definition row_available_seats :: "status_row \<Rightarrow> js_value" where
  "row_available_seats row = Number (col_available_seats row)"

text \<open>
  Reading a property of an array by name: \<open>length\<close> is the number of elements, and
  an array has no property under a column name, so any other name reads \<open>undefined\<close>.
\<close>

definition array_prop :: "'a list \<Rightarrow> string \<Rightarrow> js_value" where
  "array_prop xs name = (if name = ''length'' then Number (int (length xs)) else Undefined)"

text \<open>
  \<open>x <= y\<close> and \<open>x > y\<close>: \<open>undefined\<close> converts to NaN, and every comparison
  with NaN is false.
\<close>

fun js_le :: "js_value \<Rightarrow> js_value \<Rightarrow> bool" where
  "js_le (Number a) (Number b) = (a \<le> b)"
| "js_le _ _ = False"

fun js_gt :: "js_value \<Rightarrow> js_value \<Rightarrow> bool" where
  "js_gt (Number a) (Number b) = (a > b)"
| "js_gt _ _ = False"

subsection \<open>The four SQL statements\<close>

text \<open>
  \<open>SELECT available_seats FROM system_status WHERE id = 1 FOR UPDATE\<close>: the one row
  of the table.
\<close>

definition select_available_seats :: "db \<Rightarrow> status_row list" where
  "select_available_seats tx = [\<lparr>col_available_seats = available_seats tx\<rparr>]"

text \<open>
  \<open>SELECT 1 FROM bookings WHERE user_id = ?\<close> (in the other printings
  \<open>SELECT * FROM bookings WHERE user_id = ?\<close>): one row per matching booking. Only the
  number of rows is read.
\<close>

definition select_bookings :: "string \<Rightarrow> db \<Rightarrow> booking list" where
  "select_bookings userId tx = filter (\<lambda>b. user_id b = userId) (bookings tx)"

text \<open>\<open>UPDATE system_status SET available_seats = available_seats - 1 WHERE id = 1\<close>\<close>

definition update_available_seats :: "db \<Rightarrow> db" where
  "update_available_seats tx = tx\<lparr>available_seats := available_seats tx - 1\<rparr>"

text \<open>
  \<open>INSERT INTO bookings (user_id) VALUES (?)\<close>. The database refuses a value longer
  than the 255 characters of the column, and a user id that a row already has
  (\<open>UNIQUE\<close>); otherwise the new row takes the next serial id.
\<close>

definition insert_booking :: "string \<Rightarrow> db \<Rightarrow> error + db" where
  "insert_booking userId tx =
     (if 255 < length userId then Inl DatabaseError
      else if userId \<in> set (map user_id (bookings tx)) then Inl DatabaseError
      else Inr (tx\<lparr>bookings :=
                      bookings tx @ [\<lparr>booking_id = bookings_id_seq tx, user_id = userId\<rparr>],
                    bookings_id_seq := bookings_id_seq tx + 1\<rparr>))"

subsection \<open>The transaction and \<open>bookSeat\<close>\<close>

text \<open>
  \<open>db.transaction(body)\<close> commits the state the body leaves when the body returns, and
  rolls back to the state before the call when the body throws.
\<close>

definition transaction :: "(db \<Rightarrow> 'a promise \<times> db) \<Rightarrow> db \<Rightarrow> 'a promise \<times> db" where
  "transaction body s =
     (case body s of
        (Inl e, _) \<Rightarrow> (Inl e, s)
      | (Inr v, s') \<Rightarrow> (Inr v, s'))"

text \<open>
  The documents print the method five times, in two forms that differ in one line.

  The first form (once, in the document that declares \<open>system_status\<close>) binds the
  first row of the status query, \<open>const [seatStatus] = await tx.query(...)\<close>, and tests
  that row's \<open>available_seats\<close>. With no row selected \<open>seatStatus\<close> is \<open>undefined\<close>
  and reading its property throws. The seat count is tested first, the duplicate second,
  and only then the two writes run; a write the database refuses throws out of the body.
\<close>

definition bookSeat_body :: "string \<Rightarrow> db \<Rightarrow> string promise \<times> db" where
  "bookSeat_body userId tx =
     (case select_available_seats tx of
        [] \<Rightarrow> (Inl TypeError, tx)
      | seatStatus # _ \<Rightarrow>
          if js_le (row_available_seats seatStatus) (Number 0)
          then (Inl (Error ''Sold Out''), tx)
          else
            let alreadyBooked = select_bookings userId tx in
            if js_gt (array_prop alreadyBooked ''length'') (Number 0)
            then (Inl (Error ''Already Booked''), tx)
            else
              let tx1 = update_available_seats tx in
              (case insert_booking userId tx1 of
                 Inl e \<Rightarrow> (Inl e, tx1)
               | Inr tx2 \<Rightarrow> (Inr ''Booking Successful'', tx2)))"

definition bookSeat :: "string \<Rightarrow> db \<Rightarrow> string promise \<times> db" where
  "bookSeat userId s = transaction (bookSeat_body userId) s"

text \<open>
  The second form (the four other printings) keeps the whole result,
  \<open>const seatStatus = await tx.query(...)\<close>, and tests \<open>seatStatus.available_seats\<close>
  on the array itself. Everything after that test is as in the first form.
\<close>

definition bookSeat_unsplit_body :: "string \<Rightarrow> db \<Rightarrow> string promise \<times> db" where
  "bookSeat_unsplit_body userId tx =
     (let seatStatus = select_available_seats tx in
      if js_le (array_prop seatStatus ''available_seats'') (Number 0)
      then (Inl (Error ''Sold Out''), tx)
      else
        let alreadyBooked = select_bookings userId tx in
        if js_gt (array_prop alreadyBooked ''length'') (Number 0)
        then (Inl (Error ''Already Booked''), tx)
        else
          let tx1 = update_available_seats tx in
          (case insert_booking userId tx1 of
             Inl e \<Rightarrow> (Inl e, tx1)
           | Inr tx2 \<Rightarrow> (Inr ''Booking Successful'', tx2)))"

definition bookSeat_unsplit :: "string \<Rightarrow> db \<Rightarrow> string promise \<times> db" where
  "bookSeat_unsplit userId s = transaction (bookSeat_unsplit_body userId) s"



text \<open>The user ids that hold a booking.\<close>

definition booked :: "db \<Rightarrow> string set" where
  "booked s = set (map user_id (bookings s))"

text \<open>
  The pool invariants for a pool of \<open>capacity\<close> seats: the counter stays within
  \<open>0 .. capacity\<close>, it equals the capacity less the number of bookings, and no user id
  has two bookings.
\<close>

definition pool_inv :: "int \<Rightarrow> db \<Rightarrow> bool" where
  "pool_inv capacity s \<longleftrightarrow>
     0 \<le> available_seats s \<and> available_seats s \<le> capacity \<and>
     available_seats s = capacity - int (length (bookings s)) \<and>
     distinct (map user_id (bookings s))"

text \<open>
  A pool of one seat whose seat is taken by \<open>u1\<close>: the state that \<open>bookSeat ''u1''\<close>
  leaves on \<open>create_pool 1\<close>.
\<close>

definition sold_out_db :: db where
  "sold_out_db =
     \<lparr>available_seats = 0, bookings = [\<lparr>booking_id = 1, user_id = ''u1''\<rparr>],
      bookings_id_seq = 2\<rparr>"




section \<open>The availability broadcast\<close>

text \<open>
  \<open>broadcastAvailability(count)\<close> builds the object
  \<open>{ type: "availability", available: count }\<close>, turns it into JSON text and publishes
  the text on the Redis channel \<open>seat_updates\<close>. An object literal is the list of its
  members in the order written; the values that occur are strings and integers.
\<close>

datatype json = JString string | JNumber int

type_synonym json_object = "(string \<times> json) list"

text \<open>Decimal digits of a number, as \<open>JSON.stringify\<close> prints an integer.\<close>

function show_nat :: "nat \<Rightarrow> string" where
  "show_nat n =
     (if n < 10 then [char_of (48 + n)]
      else show_nat (n div 10) @ [char_of (48 + n mod 10)])"
  by pat_completeness auto
termination
  by (relation "measure id") auto

definition show_int :: "int \<Rightarrow> string" where
  "show_int i = (if i < 0 then CHR ''-'' # show_nat (nat (- i)) else show_nat (nat i))"

text \<open>
  A string between double quotes (character code 34). The keys and the one string value
  of the object hold letters only, so no character needs an escape.
\<close>

definition quoted :: "string \<Rightarrow> string" where
  "quoted s = CHR 0x22 # s @ [CHR 0x22]"

fun stringify_value :: "json \<Rightarrow> string" where
  "stringify_value (JString s) = quoted s"
| "stringify_value (JNumber n) = show_int n"

fun stringify_members :: "json_object \<Rightarrow> string" where
  "stringify_members [] = []"
| "stringify_members [(k, v)] = quoted k @ '':'' @ stringify_value v"
| "stringify_members ((k, v) # m) =
     quoted k @ '':'' @ stringify_value v @ '','' @ stringify_members m"

definition JSON_stringify :: "json_object \<Rightarrow> string" where
  "JSON_stringify obj = ''{'' @ stringify_members obj @ ''}''"

text \<open>The object literal of \<open>broadcastAvailability\<close>.\<close>

definition availability_event :: "int \<Rightarrow> json_object" where
  "availability_event count =
     [(''type'', JString ''availability''), (''available'', JNumber count)]"

text \<open>
  \<open>redisPub.publish(channel, message)\<close> appends to the messages published so far, each
  with its channel.
\<close>

type_synonym redis = "(string \<times> string) list"

definition publish :: "string \<Rightarrow> string \<Rightarrow> redis \<Rightarrow> redis" where
  "publish channel message redisPub = redisPub @ [(channel, message)]"

definition broadcastAvailability :: "int \<Rightarrow> redis \<Rightarrow> redis" where
  "broadcastAvailability count redisPub =
     (let payload = JSON_stringify (availability_event count)
      in publish ''seat_updates'' payload redisPub)"

section \<open>The thermostat\<close>

text \<open>
  \<open>Heater\<close> and \<open>Cooler\<close> are objects with one private field \<open>_isOn\<close>; the thermostat
  holds a reference to each and switches them through \<open>on()\<close> and \<open>off()\<close>. Since the
  constructor takes any two \<open>Device\<close> references, the devices live in a heap: a
  reference is an address, and the heap gives the \<open>_isOn\<close> field of the object at each
  address. The two classes differ only in the text they print, and console output is
  not modelled.
\<close>

type_synonym ref = nat

type_synonym heap = "ref \<Rightarrow> bool"

definition device_on :: "ref \<Rightarrow> heap \<Rightarrow> heap" where
  "device_on r h = (if \<not> h r then h(r := True) else h)"

definition device_off :: "ref \<Rightarrow> heap \<Rightarrow> heap" where
  "device_off r h = (if h r then h(r := False) else h)"

definition isOn :: "ref \<Rightarrow> heap \<Rightarrow> bool" where
  "isOn r h = h r"

text \<open>
  The fields of \<open>Thermostat\<close>. The type \<open>'n\<close> stands for the numbers of the program.
\<close>

record 'n thermostat =
  minTemp :: 'n
  maxTemp :: 'n
  hysteresis :: 'n
  currentTemp :: 'n
  targetTemp :: 'n
  heater :: ref
  cooler :: ref

text \<open>
  The constructor, with its defaults \<open>minTemp = 10\<close>, \<open>maxTemp = 30\<close> and
  \<open>hysteresis = 0.5\<close> passed explicitly.
\<close>

definition new_Thermostat :: "ref \<Rightarrow> ref \<Rightarrow> real \<Rightarrow> real \<Rightarrow> real \<Rightarrow> real thermostat" where
  "new_Thermostat heater0 cooler0 minTemp0 maxTemp0 hysteresis0 =
     \<lparr>minTemp = minTemp0, maxTemp = maxTemp0, hysteresis = hysteresis0,
      currentTemp = 20, targetTemp = 22, heater = heater0, cooler = cooler0\<rparr>"

text \<open>
  \<open>update\<close> uses of its numbers only \<open><\<close>, \<open>>\<close>, \<open>+\<close> and \<open>-\<close>, and it is defined
  for every type that has them, with no law assumed of them: whatever the comparisons
  answer (for a floating-point NaN both answer false), one of the three branches runs.
\<close>

definition update ::
  "'n::{ord, plus, minus} \<Rightarrow> 'n thermostat \<times> heap \<Rightarrow> 'n thermostat \<times> heap" where
  "update temp st =
     (case st of (this0, h) \<Rightarrow>
        let this = this0\<lparr>currentTemp := temp\<rparr> in
        if currentTemp this < targetTemp this - hysteresis this then
          (this, device_on (heater this) (device_off (cooler this) h))
        else if currentTemp this > targetTemp this + hysteresis this then
          (this, device_on (cooler this) (device_off (heater this) h))
        else
          (this, device_off (cooler this) (device_off (heater this) h)))"

text \<open>
  \<open>setTargetTemperature\<close> clamps the value into \<open>minTemp .. maxTemp\<close> with
  \<open>Math.max\<close> and \<open>Math.min\<close>, here on real numbers.
\<close>

definition setTargetTemperature ::
  "real \<Rightarrow> real thermostat \<times> heap \<Rightarrow> real thermostat \<times> heap" where
  "setTargetTemperature v st =
     (case st of (this, h) \<Rightarrow>
        (this\<lparr>targetTemp := max (minTemp this) (min (maxTemp this) v)\<rparr>, h))"

text \<open>\<open>getStatus\<close> reads both temperatures and the \<open>isOn\<close> getter of each device.\<close>

record 'n status =
  status_currentTemp :: 'n
  status_targetTemp :: 'n
  heaterOn :: bool
  coolerOn :: bool

definition getStatus :: "'n thermostat \<times> heap \<Rightarrow> 'n status" where
  "getStatus st =
     (case st of (this, h) \<Rightarrow>
        \<lparr>status_currentTemp = currentTemp this, status_targetTemp = targetTemp this,
         heaterOn = isOn (heater this) h, coolerOn = isOn (cooler this) h\<rparr>)"

text \<open>A heap in which every device is off, as \<open>new Heater()\<close> and \<open>new Cooler()\<close> are.\<close>

definition all_off :: heap where
  "all_off = (\<lambda>r. False)"

section \<open>Properties of \<open>bookSeat\<close>\<close>

lemma select_bookings_empty_iff:
  "select_bookings u s = [] \<longleftrightarrow> u \<notin> booked s"
  by (auto simp: select_bookings_def booked_def filter_empty_conv)

lemma duplicate_test:
  "js_gt (array_prop (select_bookings u s) ''length'') (Number 0) \<longleftrightarrow> u \<in> booked s"
  using select_bookings_empty_iff [of u s] by (simp add: array_prop_def)

lemma insert_booking_cases:
  "insert_booking u (update_available_seats s) =
     (if 255 < length u \<or> u \<in> booked s then Inl DatabaseError
      else Inr (s\<lparr>available_seats := available_seats s - 1,
                  bookings := bookings s @ [\<lparr>booking_id = bookings_id_seq s, user_id = u\<rparr>],
                  bookings_id_seq := bookings_id_seq s + 1\<rparr>))"
  by (simp add: insert_booking_def update_available_seats_def booked_def)

text \<open>
  The outcomes of one call of the first form, with the state each leaves: the seat test,
  then the duplicate test, then the writes, which the database refuses for a user id of
  more than 255 characters.
\<close>

lemma bookSeat_cases:
  "bookSeat u s =
     (if available_seats s \<le> 0 then (Inl (Error ''Sold Out''), s)
      else if u \<in> booked s then (Inl (Error ''Already Booked''), s)
      else if 255 < length u then (Inl DatabaseError, s)
      else (Inr ''Booking Successful'',
            s\<lparr>available_seats := available_seats s - 1,
              bookings := bookings s @ [\<lparr>booking_id = bookings_id_seq s, user_id = u\<rparr>],
              bookings_id_seq := bookings_id_seq s + 1\<rparr>))"
  by (simp add: bookSeat_def transaction_def bookSeat_body_def Let_def duplicate_test
      insert_booking_cases select_available_seats_def row_available_seats_def)

text \<open>
  The outcomes of one call of the second form: the array has no property
  \<open>available_seats\<close>, the seat test compares \<open>undefined\<close> and never fires, and the
  call goes on to the duplicate test and the writes whatever the counter holds.
\<close>

lemma bookSeat_unsplit_cases:
  "bookSeat_unsplit u s =
     (if u \<in> booked s then (Inl (Error ''Already Booked''), s)
      else if 255 < length u then (Inl DatabaseError, s)
      else (Inr ''Booking Successful'',
            s\<lparr>available_seats := available_seats s - 1,
              bookings := bookings s @ [\<lparr>booking_id = bookings_id_seq s, user_id = u\<rparr>],
              bookings_id_seq := bookings_id_seq s + 1\<rparr>))"
proof -
  have dead: "\<not> js_le (array_prop (select_available_seats s) ''available_seats'') (Number 0)"
    by (simp add: array_prop_def)
  show ?thesis
    using dead
    by (simp add: bookSeat_unsplit_def transaction_def bookSeat_unsplit_body_def Let_def
        duplicate_test insert_booking_cases)
qed

text \<open>While a seat is left the seat test decides nothing, and the two forms agree.\<close>

lemma forms_agree_while_seat_left:
  "0 < available_seats s \<Longrightarrow> bookSeat_unsplit u s = bookSeat u s"
  by (simp add: bookSeat_cases bookSeat_unsplit_cases)

lemma sold_out_db_reached: "snd (bookSeat ''u1'' (create_pool 1)) = sold_out_db"
  by (simp add: bookSeat_cases create_pool_def sold_out_db_def booked_def)

lemma sold_out_db_inv: "pool_inv 1 sold_out_db"
  by (simp add: pool_inv_def sold_out_db_def)

text \<open>
  On the same sold-out pool the second form answers the booked user \<open>Already Booked\<close>
  and books a new user although no seat is left.
\<close>

lemma bookSeat_unsplit_sold_out_db:
  "fst (bookSeat_unsplit ''u1'' sold_out_db) = Inl (Error ''Already Booked'') \<and>
   fst (bookSeat_unsplit ''u2'' sold_out_db) = Inr ''Booking Successful'' \<and>
   available_seats (snd (bookSeat_unsplit ''u2'' sold_out_db)) = - 1"
  by (simp add: bookSeat_unsplit_cases sold_out_db_def booked_def)

subsection \<open>Decision order\<close>




subsection \<open>Invariants\<close>







subsection \<open>Calling twice\<close>




subsection \<open>Capacity exactness\<close>













subsection \<open>How the outcomes reach the caller\<close>



subsection \<open>The empty user id\<close>

text \<open>
  C6 (as the code has it). \<open>bookSeat\<close> does not validate its argument: the empty user
  id is handled as any other. When a seat is left and no booking is held under the empty
  id, the call succeeds, takes one seat and inserts a booking whose user id is empty.
\<close>

theorem bookSeat_empty_userId:
  assumes "0 < available_seats s" and "'''' \<notin> booked s"
  shows "fst (bookSeat '''' s) = Inr ''Booking Successful'' \<and>
         available_seats (snd (bookSeat '''' s)) = available_seats s - 1 \<and>
         bookings (snd (bookSeat '''' s)) =
           bookings s @ [\<lparr>booking_id = bookings_id_seq s, user_id = ''''\<rparr>]"
  using assms by (simp add: bookSeat_cases)

text \<open>C6 on a pool of three seats.\<close>

theorem bookSeat_empty_userId_witness:
  "0 < available_seats (create_pool 3) \<and> '''' \<notin> booked (create_pool 3) \<and>
   fst (bookSeat '''' (create_pool 3)) = Inr ''Booking Successful'' \<and>
   available_seats (snd (bookSeat '''' (create_pool 3))) = 2 \<and>
   bookings (snd (bookSeat '''' (create_pool 3))) = [\<lparr>booking_id = 1, user_id = ''''\<rparr>]"
  using bookSeat_empty_userId [of "create_pool 3"]
  by (simp add: create_pool_def booked_def)

text \<open>
  C6 as stated fails: on the initial pool the call with the empty user id is not
  rejected; it books a seat.
\<close>

theorem empty_userId_is_booked:
  "bookSeat '''' initial_db =
     (Inr ''Booking Successful'',
      \<lparr>available_seats = 99, bookings = [\<lparr>booking_id = 1, user_id = ''''\<rparr>],
       bookings_id_seq = 2\<rparr>)"
  by (simp add: bookSeat_cases initial_db_def create_pool_def booked_def)

subsection \<open>The counter never increases\<close>






text \<open>
  C9. Each \<open>bookSeat\<close> call takes exactly one seat off the counter when it succeeds and
  leaves the counter as it was when it ends in \<open>Sold Out\<close> or \<open>Already Booked\<close>, the
  only other outcomes. Along every sequence of calls the counter never increases from
  one state to any later one, and every booking row present before the sequence is
  present after it: no call undoes a booking.
\<close>


section \<open>Properties of the availability broadcast\<close>

lemma stringify_event:
  "JSON_stringify (availability_event count) =
     ''{'' @ quoted ''type'' @ '':'' @ quoted ''availability'' @ '','' @
     quoted ''available'' @ '':'' @ show_int count @ ''}''"
  by (simp add: JSON_stringify_def availability_event_def)

text \<open>
  C7 (as the code has it). \<open>broadcastAvailability(count)\<close> publishes one message on the
  channel \<open>seat_updates\<close>: the JSON text of an object with exactly the two members
  \<open>type\<close>, the string \<open>availability\<close>, and \<open>available\<close>, the count it was given.
\<close>

theorem broadcastAvailability_payload:
  "broadcastAvailability count redisPub =
     redisPub @
     [(''seat_updates'',
       ''{'' @ quoted ''type'' @ '':'' @ quoted ''availability'' @ '','' @
       quoted ''available'' @ '':'' @ show_int count @ ''}'')] \<and>
   map fst (availability_event count) = [''type'', ''available''] \<and>
   map_of (availability_event count) ''type'' = Some (JString ''availability'') \<and>
   map_of (availability_event count) ''available'' = Some (JNumber count)"
proof -
  have "broadcastAvailability count redisPub =
     redisPub @
     [(''seat_updates'',
       ''{'' @ quoted ''type'' @ '':'' @ quoted ''availability'' @ '','' @
       quoted ''available'' @ '':'' @ show_int count @ ''}'')]"
    by (simp add: broadcastAvailability_def publish_def stringify_event)
  then show ?thesis by (simp add: availability_event_def)
qed

text \<open>
  C7 as stated fails: the event published for 99 remaining seats has no member
  \<open>remaining\<close> and no member \<open>sequence\<close>; the count is under \<open>available\<close>.
\<close>

theorem availability_event_has_no_sequence:
  "map_of (availability_event 99) ''remaining'' = None \<and>
   map_of (availability_event 99) ''sequence'' = None \<and>
   map fst (availability_event 99) \<noteq> [''type'', ''remaining'', ''sequence''] \<and>
   broadcastAvailability 99 [] =
     [(''seat_updates'',
       ''{'' @ quoted ''type'' @ '':'' @ quoted ''availability'' @ '','' @
       quoted ''available'' @ '':99}'')]"
  by code_simp

section \<open>Properties of the thermostat\<close>

text \<open>
  C10 (as the code has it). When the thermostat's heater and cooler are two different
  device objects, then after every \<open>update\<close> call, from any state of the thermostat and
  of the devices and for any temperature read, \<open>getStatus\<close> never reports both on.
\<close>

theorem update_not_both_on:
  fixes temp :: "'n::{ord, plus, minus}"
  assumes "heater this \<noteq> cooler this"
  shows "\<not> (heaterOn (getStatus (update temp (this, h))) \<and>
            coolerOn (getStatus (update temp (this, h))))"
  using assms
  by (simp add: update_def getStatus_def isOn_def device_on_def device_off_def Let_def)

text \<open>
  C10 on the program's own run: two devices, the target set to 25, the temperature 23
  read. The heater is on and the cooler is off.
\<close>

theorem update_not_both_on_witness:
  "heater (new_Thermostat 0 1 10 30 0.5) \<noteq> cooler (new_Thermostat 0 1 10 30 0.5) \<and>
   heaterOn (getStatus (update 23
     (setTargetTemperature 25 (new_Thermostat 0 1 10 30 0.5, all_off)))) \<and>
   \<not> coolerOn (getStatus (update 23
     (setTargetTemperature 25 (new_Thermostat 0 1 10 30 0.5, all_off))))"
  using update_not_both_on
    [of "fst (setTargetTemperature 25 (new_Thermostat 0 1 10 30 0.5, all_off))" 23 all_off]
  by (simp add: update_def getStatus_def isOn_def device_on_def device_off_def Let_def
      new_Thermostat_def all_off_def setTargetTemperature_def)

text \<open>
  C10 as stated fails when one device object is passed to the constructor as both the
  heater and the cooler: after \<open>update(0)\<close> the status reports both on.
\<close>

theorem same_device_both_on:
  "heaterOn (getStatus (update 0 (new_Thermostat 0 0 10 30 0.5, all_off))) \<and>
   coolerOn (getStatus (update 0 (new_Thermostat 0 0 10 30 0.5, all_off)))"
  by (simp add: update_def getStatus_def isOn_def device_on_def device_off_def Let_def
      new_Thermostat_def all_off_def)

end
